theory Spec2Isabelle
  imports Main
begin

section \<open>Session store: \<open>AuthProvider\<close> and \<open>ProtectedRoute\<close>\<close>

text \<open>
  The client is a single-threaded React application. A component's state cells
  (\<open>useState\<close>) become the fields of a record; every handler is a function from the
  state in which it runs to the state it leaves. An \<open>async\<close> function is cut at each
  \<open>await\<close>: the part before the \<open>await\<close> issues the request, the part after it is a
  second function that takes the outcome of the request and runs in whatever state the
  component has by then. The requests that have been issued and have not settled yet are
  kept in a list, each entry holding what the closure captured when it was issued.
  State setters of one handler run are taken together (the renders between them are
  not observed).
\<close>

record UserProfile =
  user_id :: nat
  username :: string
  email :: string

text \<open>The outcome of an awaited request: the promise resolves with data or rejects.\<close>

datatype 'a response = Resolved 'a | Rejected

text \<open>
  \<open>token\<close>, \<open>user\<close> and \<open>loading\<close> are the three state cells of \<open>AuthProvider\<close>;
  \<open>stored\<close> is the value under the key \<open>'token'\<close> of the browser's local storage
  (\<open>None\<close> for \<open>null\<close>); \<open>verifying\<close> lists the \<open>GET /users/me\<close> requests in flight, each
  by the token its closure captured for the \<open>Authorization\<close> header.
\<close>

record AuthProvider =
  token :: "string option"
  user :: "UserProfile option"
  loading :: bool
  stored :: "string option"
  verifying :: "string list"

text \<open>JavaScript truthiness of a token: \<open>null\<close> and the empty string are falsy.\<close>

fun truthy :: "string option \<Rightarrow> bool" where
  "truthy None = False"
| "truthy (Some t) = (t \<noteq> [])"

text \<open>The initial values of the state cells (\<open>useState\<close>), from the persisted token.\<close>

definition mount :: "string option \<Rightarrow> AuthProvider" where
  "mount persisted =
     \<lparr>token = persisted, user = None, loading = True, stored = persisted, verifying = []\<rparr>"

text \<open>
  \<open>verifyToken\<close> up to its \<open>await\<close>: with a truthy token the request is issued and the
  function suspends; otherwise it falls through to \<open>setLoading(false)\<close>.
\<close>

definition verifyToken :: "AuthProvider \<Rightarrow> AuthProvider" where
  "verifyToken s =
     (case token s of
        Some t \<Rightarrow> if t \<noteq> [] then s\<lparr>verifying := verifying s @ [t]\<rparr> else s\<lparr>loading := False\<rparr>
      | None \<Rightarrow> s\<lparr>loading := False\<rparr>)"

text \<open>
  \<open>verifyToken\<close> after its \<open>await\<close>. On success \<open>setUser(response.data)\<close>; in the
  \<open>catch\<close> branch \<open>setToken(null)\<close> and \<open>localStorage.removeItem('token')\<close>; then
  \<open>setLoading(false)\<close> on both paths. The continuation reads nothing of the state it
  runs in and nothing of the token the request was issued for.
\<close>

fun verifyToken_settled :: "UserProfile response \<Rightarrow> AuthProvider \<Rightarrow> AuthProvider" where
  "verifyToken_settled (Resolved u) s = s\<lparr>user := Some u, loading := False\<rparr>"
| "verifyToken_settled Rejected s = s\<lparr>token := None, stored := None, loading := False\<rparr>"

text \<open>
  The effect has the dependency list \<open>[token]\<close>: after a handler has run, React calls
  \<open>verifyToken\<close> again when the token differs from the one of the previous render.
\<close>

definition effect :: "string option \<Rightarrow> AuthProvider \<Rightarrow> AuthProvider" where
  "effect old s = (if token s = old then s else verifyToken s)"

definition login :: "string \<Rightarrow> AuthProvider \<Rightarrow> AuthProvider" where
  "login newToken s = s\<lparr>token := Some newToken, stored := Some newToken\<rparr>"

definition logout :: "AuthProvider \<Rightarrow> AuthProvider" where
  "logout s = s\<lparr>token := None, user := None, stored := None\<rparr>"

text \<open>The application starts: the cells are initialised and the effect runs once.\<close>

definition startup :: "string option \<Rightarrow> AuthProvider" where
  "startup persisted = verifyToken (mount persisted)"

text \<open>What \<open>ProtectedRoute\<close> renders: the loading indicator, the redirect to \<open>/login\<close>,
  or its children.\<close>

datatype gate = Pending | Denied | Granted

definition ProtectedRoute :: "AuthProvider \<Rightarrow> gate" where
  "ProtectedRoute s =
     (if loading s then Pending else if \<not> truthy (token s) then Denied else Granted)"

text \<open>A verification request for the current token is in flight.\<close>

definition token_in_flight :: "AuthProvider \<Rightarrow> bool" where
  "token_in_flight s = (case token s of None \<Rightarrow> False | Some t \<Rightarrow> t \<in> set (verifying s))"

text \<open>
  The source keeps no status field: what it keeps of a session is \<open>token\<close>, \<open>user\<close> and
  \<open>loading\<close>. The status that the specification gives a Session is read off these
  cells and the requests in flight, following the specification's data model, in which
  a verification outcome is ``Verified with user, or Invalid clearing token'' and a
  login ``sets token, status = Verifying''. While the startup check is outstanding
  (\<open>loading\<close>) the session is Unverified without a token and Verifying with one.
  Afterwards a session without a token is Invalid; a session with a token is Verifying
  as long as the verification of that token is in flight or no profile has arrived, and
  Verified once no verification of its token is in flight and a profile is present.
\<close>

datatype status = Unverified | Verifying | Verified | Invalid

definition status_of :: "AuthProvider \<Rightarrow> status" where
  "status_of s =
     (if loading s then (if truthy (token s) then Verifying else Unverified)
      else if \<not> truthy (token s) then Invalid
      else if token_in_flight s then Verifying
      else (case user s of None \<Rightarrow> Verifying | Some u \<Rightarrow> Verified))"

text \<open>Removing the request at position \<open>i\<close> from the requests in flight.\<close>

definition remove_nth :: "nat \<Rightarrow> 'a list \<Rightarrow> 'a list" where
  "remove_nth i xs = take i xs @ drop (Suc i) xs"

text \<open>
  The events of the session store. \<open>Login t\<close>: the login page received the token \<open>t\<close>
  and calls \<open>login\<close> (the page is not gated). \<open>Logout\<close>: the button of the dashboard
  layout, which only protected pages render, so the gate must be granted.
  \<open>VerifySettled i r\<close>: the request at position \<open>i\<close> settles with outcome \<open>r\<close>; requests
  settle in any order. An event that cannot happen in a state gives \<open>None\<close>.
\<close>

datatype auth_event = Login string | Logout | VerifySettled nat "UserProfile response"

fun auth_step :: "AuthProvider \<Rightarrow> auth_event \<Rightarrow> AuthProvider option" where
  "auth_step s (Login t) = Some (effect (token s) (login t s))"
| "auth_step s Logout =
     (if ProtectedRoute s = Granted then Some (effect (token s) (logout s)) else None)"
| "auth_step s (VerifySettled i r) =
     (if i < length (verifying s)
      then Some (effect (token s)
                   (verifyToken_settled r (s\<lparr>verifying := remove_nth i (verifying s)\<rparr>)))
      else None)"

fun auth_run :: "auth_event list \<Rightarrow> AuthProvider \<Rightarrow> AuthProvider option" where
  "auth_run [] s = Some s"
| "auth_run (e # es) s = (case auth_step s e of None \<Rightarrow> None | Some s' \<Rightarrow> auth_run es s')"

text \<open>The Session invariant of the specification: a profile is present exactly in
  status Verified.\<close>

definition session_inv :: "AuthProvider \<Rightarrow> bool" where
  "session_inv s = ((user s \<noteq> None) = (status_of s = Verified))"

definition alice :: UserProfile where
  "alice = \<lparr>user_id = 1, username = ''alice'', email = ''alice@example.org''\<rparr>"

definition bob :: UserProfile where
  "bob = \<lparr>user_id = 2, username = ''bob'', email = ''bob@example.org''\<rparr>"

text \<open>
  Concrete sessions. \<open>session_T2\<close>: the application started with the persisted
  token \<open>T1\<close>, the user logged in and got \<open>T2\<close>, and the verification of \<open>T2\<close> has
  succeeded while the one of \<open>T1\<close> is still in flight. \<open>session_after_login\<close>: the
  application started without a token and the user has just logged in.
  \<open>session_late_profile\<close>: a profile that arrived after a logout.
  \<open>session_other_profile\<close>: the token is \<open>T2\<close>, its verification is in flight, and the
  profile present is the one that the verification of \<open>T1\<close> delivered.
\<close>

definition session_T2 :: AuthProvider where
  "session_T2 =
     \<lparr>token = Some ''T2'', user = Some bob, loading = False, stored = Some ''T2'',
      verifying = [''T1'']\<rparr>"

definition session_after_login :: AuthProvider where
  "session_after_login =
     \<lparr>token = Some ''tok1'', user = None, loading = False, stored = Some ''tok1'',
      verifying = [''tok1'']\<rparr>"

definition session_late_profile :: AuthProvider where
  "session_late_profile =
     \<lparr>token = None, user = Some alice, loading = False, stored = None, verifying = []\<rparr>"

definition session_other_profile :: AuthProvider where
  "session_other_profile =
     \<lparr>token = Some ''T2'', user = Some alice, loading = False, stored = Some ''T2'',
      verifying = [''T2'']\<rparr>"

section \<open>The history page: \<open>TradingHistory\<close>\<close>

record TradeRecord =
  trade_id :: string
  asset :: string


definition trade2 :: TradeRecord where
  "trade2 = \<lparr>trade_id = ''R2'', asset = ''GBPUSD''\<rparr>"

text \<open>
  The cells of the \<open>TradingHistory\<close> page, the token it reads from the context
  (\<open>page_token\<close>) and its \<open>GET /trading/history\<close> requests in flight, each by the
  token captured for its header. \<open>page_mounted\<close> tells whether the page is on screen;
  \<open>page_orphans\<close> are the requests of pages that were taken down before their requests
  settled.
\<close>

record TradingHistory =
  page_token :: "string option"
  page_history :: "TradeRecord list"
  page_isLoading :: bool
  page_error :: string
  fetching :: "string option list"
  page_mounted :: bool
  page_orphans :: "string option list"

text \<open>\<open>fetchHistory\<close> up to its \<open>await\<close>; the request is issued whatever the token is.\<close>

definition fetchHistory :: "TradingHistory \<Rightarrow> TradingHistory" where
  "fetchHistory p = p\<lparr>page_isLoading := True, fetching := fetching p @ [page_token p]\<rparr>"

text \<open>\<open>fetchHistory\<close> after its \<open>await\<close>: \<open>try\<close>, \<open>catch\<close> and \<open>finally\<close>.\<close>

fun fetchHistory_settled :: "TradeRecord list response \<Rightarrow> TradingHistory \<Rightarrow> TradingHistory" where
  "fetchHistory_settled (Resolved h) p = p\<lparr>page_history := h, page_isLoading := False\<rparr>"
| "fetchHistory_settled Rejected p =
     p\<lparr>page_error := ''Failed to load trading history. Please try again later.'',
       page_isLoading := False\<rparr>"

text \<open>The page when it mounts: the initial values of its cells, then the effect.\<close>

definition page_mount :: "string option \<Rightarrow> TradingHistory" where
  "page_mount t =
     fetchHistory \<lparr>page_token = t, page_history = [], page_isLoading = True, page_error = [],
                   fetching = [], page_mounted = True, page_orphans = []\<rparr>"

text \<open>
  The events of the history page. The page is the element of the route \<open>/history\<close>
  behind the gate, and it lives under one token: the token is set only by \<open>login\<close>,
  which the login page calls and follows at once with \<open>navigate('/')\<close>, and it is
  cleared by \<open>logout\<close> and by a failed verification, on which the gate redirects to
  \<open>/login\<close>. Every change of the token therefore takes the page down, as does the
  navigation to another page (\<open>PageUnmount\<close>); its cells are gone and its requests in
  flight are orphaned. \<open>PageMount t\<close>: the page is opened again, under a truthy token,
  with fresh cells. \<open>HistorySettled i r\<close>: a request of the page on screen settles and
  \<open>fetchHistory\<close> resumes. \<open>OrphanHistorySettled i r\<close>: a request of a page that was
  taken down settles; the state setters of a component that is no longer mounted do
  nothing.
\<close>

datatype page_event =
    PageUnmount
  | PageMount "string option"
  | HistorySettled nat "TradeRecord list response"
  | OrphanHistorySettled nat "TradeRecord list response"

fun page_step :: "TradingHistory \<Rightarrow> page_event \<Rightarrow> TradingHistory option" where
  "page_step p PageUnmount =
     (if page_mounted p
      then Some (p\<lparr>page_mounted := False, page_orphans := page_orphans p @ fetching p,
                   fetching := []\<rparr>)
      else None)"
| "page_step p (PageMount t) =
     (if page_mounted p \<or> \<not> truthy t then None
      else Some (fetchHistory
                   \<lparr>page_token = t, page_history = [], page_isLoading = True, page_error = [],
                    fetching = [], page_mounted = True, page_orphans = page_orphans p\<rparr>))"
| "page_step p (HistorySettled i r) =
     (if page_mounted p \<and> i < length (fetching p)
      then Some (fetchHistory_settled r (p\<lparr>fetching := remove_nth i (fetching p)\<rparr>))
      else None)"
| "page_step p (OrphanHistorySettled i r) =
     (if i < length (page_orphans p)
      then Some (p\<lparr>page_orphans := remove_nth i (page_orphans p)\<rparr>)
      else None)"

fun page_run :: "page_event list \<Rightarrow> TradingHistory \<Rightarrow> TradingHistory option" where
  "page_run [] p = Some p"
| "page_run (e # es) p = (case page_step p e of None \<Rightarrow> None | Some p' \<Rightarrow> page_run es p')"


text \<open>
  Two history pages opened under \<open>T2\<close> after a page under \<open>T1\<close> was taken down with its
  request in flight: \<open>page_T2\<close> is waiting for its own request, \<open>page_T2_loaded\<close> has
  received it.
\<close>

definition page_T2 :: TradingHistory where
  "page_T2 =
     \<lparr>page_token = Some ''T2'', page_history = [], page_isLoading = True, page_error = [],
      fetching = [Some ''T2''], page_mounted = True, page_orphans = [Some ''T1'']\<rparr>"

definition page_T2_loaded :: TradingHistory where
  "page_T2_loaded =
     \<lparr>page_token = Some ''T2'', page_history = [trade2], page_isLoading = False,
      page_error = [], fetching = [], page_mounted = True, page_orphans = [Some ''T1'']\<rparr>"

section \<open>The dashboard: loading the collections and running the bot\<close>

record Account =
  acc_id :: string
  account_name :: string
  is_demo :: bool

record Strategy =
  strat_id :: string
  strategy_name :: string

text \<open>
  A request as it goes out, with the token of its \<open>Authorization\<close> header;
  \<open>PostSimulate\<close> carries \<open>account_id\<close>, \<open>strategy_id\<close>, \<open>asset\<close> and whether
  \<open>charging_mode: true\<close> is in the body.
\<close>

datatype request =
    GetAccounts "string option"
  | GetStrategies "string option"
  | GetHistory "string option"
  | PostSimulate "string option" string string string bool

text \<open>
  A suspended \<open>async\<close> function of the dashboard: which \<open>await\<close> it is at, and what
  its closure holds (the token of its render, and for \<open>fetchData\<close> the responses it
  has received so far).
\<close>

datatype pending =
    AwaitAccounts "string option"
  | AwaitStrategies "string option" "Account list"
  | AwaitHistory "string option" "Account list" "Strategy list"
  | AwaitTrading "string option"
  | AwaitTradingHistory "string option"
  | AwaitCharging "string option"
  | AwaitChargingHistory "string option"

text \<open>
  The state cells of \<open>Dashboard\<close>, the token it reads from the context
  (\<open>auth_token\<close>), and its surroundings: the suspended functions (\<open>inflight\<close>), the
  delays in milliseconds of the timeouts that are armed (\<open>timers\<close>; the only callback
  ever armed is the one of \<open>handleStartBot\<close>), and every request issued so far, in order
  (\<open>calls\<close>). \<open>mounted\<close> tells whether the dashboard is on screen; \<open>orphans\<close> and
  \<open>orphan_timers\<close> are the suspended functions and the armed timeouts of dashboards
  that were taken down.
\<close>

record Dashboard =
  auth_token :: "string option"
  accounts :: "Account list"
  strategies :: "Strategy list"
  selectedAccount :: "Account option"
  selectedStrategy :: "Strategy option"
  tradingMode :: string
  isLoading :: bool
  error :: string
  chartSymbol :: string
  tradingHistory :: "TradeRecord list"
  botRunning :: bool
  signalSource :: string
  inflight :: "pending list"
  timers :: "nat list"
  calls :: "request list"
  mounted :: bool
  orphans :: "pending list"
  orphan_timers :: "nat list"

definition issue :: "request \<Rightarrow> pending \<Rightarrow> Dashboard \<Rightarrow> Dashboard" where
  "issue r k d = d\<lparr>inflight := inflight d @ [k], calls := calls d @ [r]\<rparr>"

subsection \<open>\<open>fetchData\<close>\<close>

text \<open>Up to the first \<open>await\<close>: \<open>setIsLoading(true)\<close> and the accounts request.\<close>

definition fetchData :: "Dashboard \<Rightarrow> Dashboard" where
  "fetchData d =
     issue (GetAccounts (auth_token d)) (AwaitAccounts (auth_token d)) (d\<lparr>isLoading := True\<rparr>)"

text \<open>The \<open>catch\<close> and \<open>finally\<close> blocks, reached from whichever request rejects.\<close>

definition fetchData_catch :: "Dashboard \<Rightarrow> Dashboard" where
  "fetchData_catch d =
     d\<lparr>error := ''Failed to load data. Please try again later.'', isLoading := False\<rparr>"

text \<open>After the accounts request: \<open>setAccounts\<close>, then the strategies request.\<close>

fun fetchData_accounts :: "string option \<Rightarrow> Account list response \<Rightarrow> Dashboard \<Rightarrow> Dashboard" where
  "fetchData_accounts t (Resolved a) d =
     issue (GetStrategies t) (AwaitStrategies t a) (d\<lparr>accounts := a\<rparr>)"
| "fetchData_accounts t Rejected d = fetchData_catch d"

text \<open>After the strategies request: \<open>setStrategies\<close>, then the history request.\<close>

fun fetchData_strategies ::
  "string option \<Rightarrow> Account list \<Rightarrow> Strategy list response \<Rightarrow> Dashboard \<Rightarrow> Dashboard" where
  "fetchData_strategies t a (Resolved s) d =
     issue (GetHistory t) (AwaitHistory t a s) (d\<lparr>strategies := s\<rparr>)"
| "fetchData_strategies t a Rejected d = fetchData_catch d"

text \<open>
  ``Set default selections if available'': the first element of each response whose
  length is positive is selected.
\<close>

definition setDefaultSelections :: "Account list \<Rightarrow> Strategy list \<Rightarrow> Dashboard \<Rightarrow> Dashboard" where
  "setDefaultSelections a s d =
     (let d1 = (case a of [] \<Rightarrow> d | x # xs \<Rightarrow> d\<lparr>selectedAccount := Some x\<rparr>)
      in (case s of [] \<Rightarrow> d1 | y # ys \<Rightarrow> d1\<lparr>selectedStrategy := Some y\<rparr>))"

text \<open>After the history request: \<open>setTradingHistory\<close>, the default selections, and
  \<open>finally\<close>.\<close>

fun fetchData_history ::
  "Account list \<Rightarrow> Strategy list \<Rightarrow> TradeRecord list response \<Rightarrow> Dashboard \<Rightarrow> Dashboard" where
  "fetchData_history a s (Resolved h) d =
     (setDefaultSelections a s (d\<lparr>tradingHistory := h\<rparr>))\<lparr>isLoading := False\<rparr>"
| "fetchData_history a s Rejected d = fetchData_catch d"

subsection \<open>\<open>handleStartBot\<close>, \<open>handleStopBot\<close>, \<open>handleChargingMode\<close>\<close>

definition select_first :: string where
  "select_first = ''Please select an account and strategy first.''"

text \<open>The guard and the part up to the \<open>POST /simulate/trading\<close>.\<close>

definition handleStartBot :: "Dashboard \<Rightarrow> Dashboard" where
  "handleStartBot d =
     (case selectedAccount d of
        None \<Rightarrow> d\<lparr>error := select_first\<rparr>
      | Some a \<Rightarrow>
          (case selectedStrategy d of
             None \<Rightarrow> d\<lparr>error := select_first\<rparr>
           | Some st \<Rightarrow>
               issue (PostSimulate (auth_token d) (acc_id a) (strat_id st) (chartSymbol d) False)
                     (AwaitTrading (auth_token d)) (d\<lparr>botRunning := True\<rparr>)))"

text \<open>The \<open>finally\<close> block: \<open>setTimeout(() => setBotRunning(false), 5000)\<close>.\<close>

definition handleStartBot_finally :: "Dashboard \<Rightarrow> Dashboard" where
  "handleStartBot_finally d = d\<lparr>timers := timers d @ [5000]\<rparr>"

text \<open>After the trigger: on success the history request goes out and the function
  suspends again; a rejection goes to \<open>catch\<close> and \<open>finally\<close>.\<close>

fun handleStartBot_trading :: "string option \<Rightarrow> unit response \<Rightarrow> Dashboard \<Rightarrow> Dashboard" where
  "handleStartBot_trading t (Resolved ack) d = issue (GetHistory t) (AwaitTradingHistory t) d"
| "handleStartBot_trading t Rejected d =
     handleStartBot_finally (d\<lparr>error := ''Failed to execute trade. Please try again.''\<rparr>)"

text \<open>After the history request of \<open>handleStartBot\<close>.\<close>

fun handleStartBot_history :: "TradeRecord list response \<Rightarrow> Dashboard \<Rightarrow> Dashboard" where
  "handleStartBot_history (Resolved h) d = handleStartBot_finally (d\<lparr>tradingHistory := h\<rparr>)"
| "handleStartBot_history Rejected d =
     handleStartBot_finally (d\<lparr>error := ''Failed to execute trade. Please try again.''\<rparr>)"

definition handleStopBot :: "Dashboard \<Rightarrow> Dashboard" where
  "handleStopBot d = d\<lparr>botRunning := False\<rparr>"

text \<open>The callback of the timeout.\<close>

definition timeout_callback :: "Dashboard \<Rightarrow> Dashboard" where
  "timeout_callback d = d\<lparr>botRunning := False\<rparr>"

definition handleChargingMode :: "Dashboard \<Rightarrow> Dashboard" where
  "handleChargingMode d =
     (case selectedAccount d of
        None \<Rightarrow> d\<lparr>error := select_first\<rparr>
      | Some a \<Rightarrow>
          (case selectedStrategy d of
             None \<Rightarrow> d\<lparr>error := select_first\<rparr>
           | Some st \<Rightarrow>
               issue (PostSimulate (auth_token d) (acc_id a) (strat_id st) (chartSymbol d) True)
                     (AwaitCharging (auth_token d)) (d\<lparr>botRunning := True\<rparr>)))"

fun handleChargingMode_trading :: "string option \<Rightarrow> unit response \<Rightarrow> Dashboard \<Rightarrow> Dashboard" where
  "handleChargingMode_trading t (Resolved ack) d =
     issue (GetHistory t) (AwaitChargingHistory t) d"
| "handleChargingMode_trading t Rejected d =
     d\<lparr>error := ''Failed to activate charging mode. Please try again.''\<rparr>"

fun handleChargingMode_history :: "TradeRecord list response \<Rightarrow> Dashboard \<Rightarrow> Dashboard" where
  "handleChargingMode_history (Resolved h) d = d\<lparr>tradingHistory := h\<rparr>"
| "handleChargingMode_history Rejected d =
     d\<lparr>error := ''Failed to activate charging mode. Please try again.''\<rparr>"

subsection \<open>The dashboard as an event system\<close>

text \<open>What comes back for a request: a rejection, or the data of the matching kind.\<close>

datatype reply =
    Failed
  | GotAccounts "Account list"
  | GotStrategies "Strategy list"
  | GotHistory "TradeRecord list"
  | GotAck

text \<open>A suspended function resumes with the reply to its request; a reply of another
  kind than the request asks for is not an event of the system.\<close>

fun settle :: "pending \<Rightarrow> reply \<Rightarrow> Dashboard \<Rightarrow> Dashboard option" where
  "settle (AwaitAccounts t) (GotAccounts a) d = Some (fetchData_accounts t (Resolved a) d)"
| "settle (AwaitAccounts t) Failed d = Some (fetchData_accounts t Rejected d)"
| "settle (AwaitStrategies t a) (GotStrategies s) d = Some (fetchData_strategies t a (Resolved s) d)"
| "settle (AwaitStrategies t a) Failed d = Some (fetchData_strategies t a Rejected d)"
| "settle (AwaitHistory t a s) (GotHistory h) d = Some (fetchData_history a s (Resolved h) d)"
| "settle (AwaitHistory t a s) Failed d = Some (fetchData_history a s Rejected d)"
| "settle (AwaitTrading t) GotAck d = Some (handleStartBot_trading t (Resolved ()) d)"
| "settle (AwaitTrading t) Failed d = Some (handleStartBot_trading t Rejected d)"
| "settle (AwaitTradingHistory t) (GotHistory h) d = Some (handleStartBot_history (Resolved h) d)"
| "settle (AwaitTradingHistory t) Failed d = Some (handleStartBot_history Rejected d)"
| "settle (AwaitCharging t) GotAck d = Some (handleChargingMode_trading t (Resolved ()) d)"
| "settle (AwaitCharging t) Failed d = Some (handleChargingMode_trading t Rejected d)"
| "settle (AwaitChargingHistory t) (GotHistory h) d =
     Some (handleChargingMode_history (Resolved h) d)"
| "settle (AwaitChargingHistory t) Failed d = Some (handleChargingMode_history Rejected d)"
| "settle k r d = None"

text \<open>The initial values of the cells of a dashboard (\<open>useState\<close>).\<close>

definition Dashboard_init :: "string option \<Rightarrow> Dashboard" where
  "Dashboard_init t =
     \<lparr>auth_token = t, accounts = [], strategies = [], selectedAccount = None,
      selectedStrategy = None, tradingMode = ''demo'', isLoading = True, error = [],
      chartSymbol = ''EURUSD'', tradingHistory = [], botRunning = False,
      signalSource = ''built-in'', inflight = [], timers = [], calls = [], mounted = True,
      orphans = [], orphan_timers = []\<rparr>"

text \<open>The dashboard when it mounts: the initial values of its cells, then the effect.\<close>

definition Dashboard_mount :: "string option \<Rightarrow> Dashboard" where
  "Dashboard_mount t = fetchData (Dashboard_init t)"

text \<open>
  The dashboard is taken down: its cells are no longer on screen, and its suspended
  functions and armed timeouts are orphaned.
\<close>

definition unmount :: "Dashboard \<Rightarrow> Dashboard" where
  "unmount d =
     d\<lparr>mounted := False, orphans := orphans d @ inflight d, inflight := [],
       orphan_timers := orphan_timers d @ timers d, timers := []\<rparr>"

text \<open>
  The dashboard is mounted again under the token \<open>t\<close>: a new component with the
  initial values of its cells, whose effect runs \<open>fetchData\<close>. The requests issued so
  far and the orphans stay.
\<close>

definition remount :: "string option \<Rightarrow> Dashboard \<Rightarrow> Dashboard" where
  "remount t d =
     fetchData ((Dashboard_init t)\<lparr>calls := calls d, orphans := orphans d,
                                    orphan_timers := orphan_timers d\<rparr>)"

text \<open>
  A suspended function of a dashboard that was taken down resumes. Its state setters
  do nothing, since the component is no longer mounted; the requests it issues still go
  out and the timeout it arms is still armed, as orphans in their turn.
\<close>

definition settle_orphan :: "nat \<Rightarrow> reply \<Rightarrow> Dashboard \<Rightarrow> Dashboard option" where
  "settle_orphan i r d =
     (case settle (orphans d ! i) r (d\<lparr>inflight := [], timers := []\<rparr>) of
        None \<Rightarrow> None
      | Some d' \<Rightarrow>
          Some (d\<lparr>calls := calls d', orphans := remove_nth i (orphans d) @ inflight d',
                 orphan_timers := orphan_timers d @ timers d'\<rparr>))"

text \<open>
  The events of the dashboard. \<open>TokenChanged t\<close>: the context delivers another token;
  with a truthy token (a \<open>login\<close> whose \<open>navigate('/')\<close> leads to the route the
  dashboard is already on) the effect with dependency \<open>[token]\<close> runs \<open>fetchData\<close>,
  with a falsy one (logout, or a verification that failed) the gate redirects to
  \<open>/login\<close> and the dashboard is taken down. \<open>Unmount\<close>: the user navigates to another page with
  the sidebar, which takes the dashboard down as well. \<open>Mount t\<close>: the dashboard is
  opened again under a truthy token. \<open>SelectAccount v\<close> and \<open>SelectStrategy v\<close>: the user
  picks the option with value \<open>v\<close> and the handler looks it up with \<open>find\<close>. The three
  buttons exist only when the page is not showing its spinner (\<open>isLoading\<close>): Power ON
  and Charging UP while \<open>botRunning\<close> is false (Charging UP is disabled without a
  selection), Power OFF while it is true. \<open>Settled i r\<close>: the suspended function at
  position \<open>i\<close> resumes. \<open>Timeout i\<close>: the armed timeout at position \<open>i\<close> fires.
  \<open>OrphanSettled i r\<close> and \<open>OrphanTimeout i\<close>: the same for a function or a timeout of a
  dashboard that was taken down; the callback of such a timeout sets a cell that is no
  longer there.
\<close>

datatype event =
    TokenChanged "string option"
  | Unmount
  | Mount "string option"
  | SelectAccount string
  | SelectStrategy string
  | ClickStart
  | ClickCharging
  | ClickStop
  | Settled nat reply
  | Timeout nat
  | OrphanSettled nat reply
  | OrphanTimeout nat

fun step :: "Dashboard \<Rightarrow> event \<Rightarrow> Dashboard option" where
  "step d (TokenChanged t) =
     (if \<not> mounted d \<or> t = auth_token d then None
      else if \<not> truthy t then Some (unmount d)
      else Some (fetchData (d\<lparr>auth_token := t\<rparr>)))"
| "step d Unmount = (if mounted d then Some (unmount d) else None)"
| "step d (Mount t) = (if mounted d \<or> \<not> truthy t then None else Some (remount t d))"
| "step d (SelectAccount v) =
     (if \<not> mounted d \<or> isLoading d then None
      else Some (d\<lparr>selectedAccount := find (\<lambda>a. acc_id a = v) (accounts d)\<rparr>))"
| "step d (SelectStrategy v) =
     (if \<not> mounted d \<or> isLoading d then None
      else Some (d\<lparr>selectedStrategy := find (\<lambda>s. strat_id s = v) (strategies d)\<rparr>))"
| "step d ClickStart =
     (if \<not> mounted d \<or> isLoading d \<or> botRunning d then None else Some (handleStartBot d))"
| "step d ClickCharging =
     (if \<not> mounted d \<or> isLoading d \<or> botRunning d \<or> selectedAccount d = None
         \<or> selectedStrategy d = None
      then None else Some (handleChargingMode d))"
| "step d ClickStop =
     (if \<not> mounted d \<or> isLoading d \<or> \<not> botRunning d then None
      else Some (handleStopBot d))"
| "step d (Settled i r) =
     (if mounted d \<and> i < length (inflight d)
      then settle (inflight d ! i) r (d\<lparr>inflight := remove_nth i (inflight d)\<rparr>)
      else None)"
| "step d (Timeout i) =
     (if mounted d \<and> i < length (timers d)
      then Some (timeout_callback (d\<lparr>timers := remove_nth i (timers d)\<rparr>))
      else None)"
| "step d (OrphanSettled i r) =
     (if i < length (orphans d) then settle_orphan i r d else None)"
| "step d (OrphanTimeout i) =
     (if i < length (orphan_timers d)
      then Some (d\<lparr>orphan_timers := remove_nth i (orphan_timers d)\<rparr>)
      else None)"

fun run :: "event list \<Rightarrow> Dashboard \<Rightarrow> Dashboard option" where
  "run [] d = Some d"
| "run (e # es) d = (case step d e of None \<Rightarrow> None | Some d' \<Rightarrow> run es d')"

text \<open>The events that take the dashboard down.\<close>

fun takes_down :: "event \<Rightarrow> bool" where
  "takes_down Unmount = True"
| "takes_down (TokenChanged t) = (\<not> truthy t)"
| "takes_down e = False"

text \<open>A suspended \<open>handleStartBot\<close> will arm a timeout when it finishes.\<close>

fun of_start :: "pending \<Rightarrow> bool" where
  "of_start (AwaitTrading t) = True"
| "of_start (AwaitTradingHistory t) = True"
| "of_start k = False"

text \<open>No reset of \<open>botRunning\<close> is due: no timeout of the dashboard on screen is armed
  and no \<open>handleStartBot\<close> of it is suspended.\<close>

definition no_reset_due :: "Dashboard \<Rightarrow> bool" where
  "no_reset_due d = (timers d = [] \<and> list_all (\<lambda>k. \<not> of_start k) (inflight d))"

subsection \<open>Concrete data\<close>

definition acc1 :: Account where
  "acc1 = \<lparr>acc_id = ''A1'', account_name = ''main'', is_demo = True\<rparr>"

definition acc2 :: Account where
  "acc2 = \<lparr>acc_id = ''A2'', account_name = ''second'', is_demo = False\<rparr>"

definition strat1 :: Strategy where
  "strat1 = \<lparr>strat_id = ''S1'', strategy_name = ''rsi''\<rparr>"

text \<open>A dashboard that has loaded two accounts and a strategy and selected the first
  of each.\<close>

definition dash_ready :: Dashboard where
  "dash_ready =
     \<lparr>auth_token = Some ''tok1'', accounts = [acc1, acc2], strategies = [strat1],
      selectedAccount = Some acc1, selectedStrategy = Some strat1, tradingMode = ''demo'',
      isLoading = False, error = [], chartSymbol = ''EURUSD'', tradingHistory = [],
      botRunning = False, signalSource = ''built-in'', inflight = [], timers = [],
      calls = [GetAccounts (Some ''tok1''), GetStrategies (Some ''tok1''),
               GetHistory (Some ''tok1'')],
      mounted = True, orphans = [], orphan_timers = []\<rparr>"

section \<open>Session store: properties\<close>

lemma session_T2_reached:
  "auth_run [Login ''T2'', VerifySettled 1 (Resolved bob)] (startup (Some ''T1'')) = Some session_T2"
  by (simp add: startup_def mount_def verifyToken_def effect_def login_def session_T2_def
      remove_nth_def)

lemma page_T2_reached:
  "page_run [PageUnmount, PageMount (Some ''T2'')] (page_mount (Some ''T1'')) = Some page_T2"
  by (simp add: page_mount_def fetchHistory_def page_T2_def)

lemma page_T2_loaded_reached:
  "page_run [PageUnmount, PageMount (Some ''T2''), HistorySettled 0 (Resolved [trade2])]
     (page_mount (Some ''T1'')) = Some page_T2_loaded"
  by (simp add: page_mount_def fetchHistory_def page_T2_loaded_def remove_nth_def)

lemma list_all_remove_nth: "list_all P xs \<Longrightarrow> list_all P (remove_nth i xs)"
  unfolding remove_nth_def list_all_iff by (auto dest: in_set_takeD in_set_dropD)

lemma list_all_nth: "list_all P xs \<Longrightarrow> i < length xs \<Longrightarrow> P (xs ! i)"
  by (simp add: list_all_length)




subsection \<open>Results of requests issued under a superseded token\<close>




subsection \<open>A verification that fails\<close>

text \<open>
  C2: whichever request for a verification is rejected (expired or invalid token, or
  no answer: the promise rejects), the handler runs, and afterwards the session holds no
  token, its status is Invalid with \<open>loading\<close> cleared, and the stored token is gone.
\<close>

theorem verify_failure_invalidates_session:
  "i < length (verifying s) \<Longrightarrow>
     \<exists>s'. auth_step s (VerifySettled i Rejected) = Some s'
        \<and> token s' = None \<and> status_of s' = Invalid \<and> \<not> loading s' \<and> stored s' = None"
  by (simp add: effect_def verifyToken_def status_of_def)

text \<open>C2 at the startup with a persisted token \<open>tok1\<close>, whose verification fails.\<close>

theorem verify_failure_invalidates_session_witness:
  "0 < length (verifying (startup (Some ''tok1'')))
   \<and> (\<exists>s'. auth_step (startup (Some ''tok1'')) (VerifySettled 0 Rejected) = Some s'
          \<and> token s' = None \<and> status_of s' = Invalid \<and> \<not> loading s' \<and> stored s' = None)"
proof -
  have h: "0 < length (verifying (startup (Some ''tok1'')))"
    by (simp add: startup_def mount_def verifyToken_def)
  from h verify_failure_invalidates_session [OF h] show ?thesis by simp
qed

subsection \<open>The access gate\<close>

text \<open>
  C4, as stated, fails. The application starts without a token and the user logs in:
  the verification of the new token is in flight and no profile has arrived, so the
  status is Verifying, and \<open>ProtectedRoute\<close> already renders its children, because
  \<open>loading\<close> is set only until the startup check has run and \<open>login\<close> never sets it
  again. Hence pending does not follow from Verifying, and Verified does not follow from
  granted.
\<close>

theorem gate_granted_while_verifying:
  "auth_run [Login ''tok1''] (startup None) = Some session_after_login
   \<and> verifying session_after_login = [''tok1''] \<and> user session_after_login = None
   \<and> status_of session_after_login = Verifying
   \<and> ProtectedRoute session_after_login = Granted
   \<and> \<not> (ProtectedRoute session_after_login = Pending
          \<longleftrightarrow> status_of session_after_login \<in> {Unverified, Verifying})
   \<and> \<not> (ProtectedRoute session_after_login = Granted
          \<longleftrightarrow> status_of session_after_login = Verified)"
  by (simp add: startup_def mount_def verifyToken_def effect_def login_def
      session_after_login_def status_of_def ProtectedRoute_def token_in_flight_def)

text \<open>
  C4, amended: the gate reports pending exactly while \<open>loading\<close> is set, and the
  status is then Unverified or Verifying; it reports denied exactly when the status is
  Invalid; it reports granted exactly when \<open>loading\<close> is cleared and a token is present,
  which is so in every Verified session and also in a session that is Verifying after a
  login.
\<close>

theorem ProtectedRoute_decision:
  "(ProtectedRoute s = Pending \<longleftrightarrow> loading s)
   \<and> (ProtectedRoute s = Pending \<longrightarrow> status_of s \<in> {Unverified, Verifying})
   \<and> (ProtectedRoute s = Denied \<longleftrightarrow> status_of s = Invalid)
   \<and> (ProtectedRoute s = Granted \<longleftrightarrow> \<not> loading s \<and> truthy (token s))
   \<and> (status_of s = Verified \<longrightarrow> ProtectedRoute s = Granted)"
  by (auto simp: ProtectedRoute_def status_of_def split: option.splits)

text \<open>C4, the amended statement at the start with a persisted token (pending,
  Verifying) and at \<open>session_T2\<close> (granted, Verified).\<close>

theorem ProtectedRoute_decision_witness:
  "ProtectedRoute (startup (Some ''tok1'')) = Pending
   \<and> status_of (startup (Some ''tok1'')) \<in> {Unverified, Verifying}
   \<and> status_of session_T2 = Verified \<and> ProtectedRoute session_T2 = Granted"
proof -
  have a: "loading (startup (Some ''tok1''))"
    by (simp add: startup_def mount_def verifyToken_def)
  have b: "status_of session_T2 = Verified"
    by (simp add: session_T2_def status_of_def token_in_flight_def)
  from a b ProtectedRoute_decision [of "startup (Some ''tok1'')"]
    ProtectedRoute_decision [of session_T2]
  show ?thesis by simp
qed

subsection \<open>The Session invariant\<close>

text \<open>
  C9, as stated, fails, in three ways. The application starts without a token, the
  user logs in (the gate is granted at once) and logs out while the verification is in
  flight; when the verification then succeeds, its handler stores the profile, and the
  session reached has a user profile, no token and status Invalid. Second, a user whose
  token \<open>T1\<close> was verified logs in again: \<open>login\<close> keeps the profile, so the session is
  Verifying under \<open>T2\<close> with a profile present. Third, the application starts with the
  persisted token \<open>T1\<close>, the user logs in with \<open>T2\<close>, and the verification of \<open>T1\<close>
  succeeds while the one of \<open>T2\<close> is in flight: the same session is reached.
\<close>

theorem profile_without_token_reachable:
  "auth_run [Login ''T1'', Logout, VerifySettled 0 (Resolved alice)] (startup None)
     = Some session_late_profile
   \<and> user session_late_profile = Some alice \<and> token session_late_profile = None
   \<and> status_of session_late_profile = Invalid \<and> \<not> session_inv session_late_profile
   \<and> auth_run [Login ''T1'', VerifySettled 0 (Resolved alice), Login ''T2''] (startup None)
     = Some session_other_profile
   \<and> auth_run [Login ''T2'', VerifySettled 0 (Resolved alice)] (startup (Some ''T1''))
     = Some session_other_profile
   \<and> user session_other_profile = Some alice \<and> verifying session_other_profile = [''T2'']
   \<and> status_of session_other_profile = Verifying \<and> \<not> session_inv session_other_profile"
  by (simp add: startup_def mount_def verifyToken_def effect_def login_def logout_def
      session_late_profile_def session_other_profile_def remove_nth_def status_of_def
      token_in_flight_def ProtectedRoute_def session_inv_def)

text \<open>
  C9, amended: the session at startup satisfies the invariant; a login with a
  non-empty token into a session without a profile leaves it Verifying without a
  profile; a logout leaves neither profile nor token and establishes the invariant; a
  verification that succeeds while a token is present and no other verification of that
  token is in flight leaves the session Verified with the profile; a verification that
  fails while no profile is present leaves the invariant in place.
\<close>

theorem session_inv_preserved:
  "session_inv (startup persisted)
   \<and> (user s = None \<and> t \<noteq> [] \<longrightarrow>
        (\<exists>s'. auth_step s (Login t) = Some s' \<and> session_inv s' \<and> user s' = None
              \<and> token s' = Some t \<and> status_of s' = Verifying))
   \<and> (ProtectedRoute s = Granted \<longrightarrow>
        (\<exists>s'. auth_step s Logout = Some s' \<and> session_inv s' \<and> user s' = None
              \<and> token s' = None))
   \<and> (i < length (verifying s) \<and> truthy (token s)
        \<and> \<not> token_in_flight (s\<lparr>verifying := remove_nth i (verifying s)\<rparr>) \<longrightarrow>
        (\<exists>s'. auth_step s (VerifySettled i (Resolved u)) = Some s' \<and> session_inv s'
              \<and> user s' = Some u \<and> status_of s' = Verified))
   \<and> (i < length (verifying s) \<and> user s = None \<longrightarrow>
        (\<exists>s'. auth_step s (VerifySettled i Rejected) = Some s' \<and> session_inv s'
              \<and> user s' = None))"
proof (intro conjI impI)
  show "session_inv (startup persisted)"
    by (simp add: session_inv_def startup_def mount_def verifyToken_def status_of_def
        split: option.splits)
  show "\<exists>s'. auth_step s (Login t) = Some s' \<and> session_inv s' \<and> user s' = None
          \<and> token s' = Some t \<and> status_of s' = Verifying"
    if "user s = None \<and> t \<noteq> []"
    using that
    by (cases "token s = Some t")
       (auto simp: session_inv_def effect_def login_def verifyToken_def status_of_def
         token_in_flight_def)
  show "\<exists>s'. auth_step s Logout = Some s' \<and> session_inv s' \<and> user s' = None \<and> token s' = None"
    if "ProtectedRoute s = Granted"
    using that
    by (simp add: session_inv_def effect_def logout_def verifyToken_def status_of_def)
  show "\<exists>s'. auth_step s (VerifySettled i (Resolved u)) = Some s' \<and> session_inv s'
          \<and> user s' = Some u \<and> status_of s' = Verified"
    if "i < length (verifying s) \<and> truthy (token s)
        \<and> \<not> token_in_flight (s\<lparr>verifying := remove_nth i (verifying s)\<rparr>)"
    using that
    by (cases "token s") (simp_all add: session_inv_def effect_def status_of_def token_in_flight_def)
  show "\<exists>s'. auth_step s (VerifySettled i Rejected) = Some s' \<and> session_inv s' \<and> user s' = None"
    if "i < length (verifying s) \<and> user s = None"
    using that by (simp add: session_inv_def effect_def verifyToken_def status_of_def)
qed

text \<open>
  C9, the amended statement: a login and a logout at the session after startup
  without a token resp. after the login, and the verification of \<open>tok1\<close> succeeding or
  failing at \<open>session_after_login\<close>.
\<close>

theorem session_inv_preserved_witness:
  "(user (startup None) = None \<and> ''tok1'' \<noteq> [])
   \<and> ProtectedRoute session_after_login = Granted
   \<and> (0 < length (verifying session_after_login) \<and> truthy (token session_after_login)
      \<and> \<not> token_in_flight
            (session_after_login\<lparr>verifying := remove_nth 0 (verifying session_after_login)\<rparr>))
   \<and> user session_after_login = None
   \<and> session_inv (startup (Some ''tok1''))
   \<and> (\<exists>s'. auth_step (startup None) (Login ''tok1'') = Some s' \<and> session_inv s'
          \<and> token s' = Some ''tok1'' \<and> status_of s' = Verifying)
   \<and> (\<exists>s'. auth_step session_after_login Logout = Some s' \<and> session_inv s' \<and> user s' = None
          \<and> token s' = None)
   \<and> (\<exists>s'. auth_step session_after_login (VerifySettled 0 (Resolved alice)) = Some s'
          \<and> session_inv s' \<and> user s' = Some alice \<and> status_of s' = Verified)
   \<and> (\<exists>s'. auth_step session_after_login (VerifySettled 0 Rejected) = Some s' \<and> session_inv s'
          \<and> user s' = None)"
proof -
  have a: "user (startup None) = None \<and> ''tok1'' \<noteq> []"
    by (simp add: startup_def mount_def verifyToken_def)
  have b: "ProtectedRoute session_after_login = Granted"
    by (simp add: ProtectedRoute_def session_after_login_def)
  have c: "0 < length (verifying session_after_login) \<and> truthy (token session_after_login)
           \<and> \<not> token_in_flight
                 (session_after_login\<lparr>verifying := remove_nth 0 (verifying session_after_login)\<rparr>)"
    by (simp add: session_after_login_def token_in_flight_def remove_nth_def)
  have d: "user session_after_login = None"
    by (simp add: session_after_login_def)
  from a b c d
    session_inv_preserved [of "Some ''tok1''" "startup None" "''tok1''" 0 alice]
    session_inv_preserved [of "Some ''tok1''" session_after_login "''tok1''" 0 alice]
  show ?thesis by simp
qed

section \<open>The dashboard: properties\<close>

lemma dash_ready_reached:
  "run [Settled 0 (GotAccounts [acc1, acc2]), Settled 0 (GotStrategies [strat1]),
        Settled 0 (GotHistory [])] (Dashboard_mount (Some ''tok1'')) = Some dash_ready"
  by (simp add: Dashboard_mount_def Dashboard_init_def fetchData_def issue_def remove_nth_def
      setDefaultSelections_def dash_ready_def)

subsection \<open>Starting without a selection\<close>

text \<open>
  C5: when no account or no strategy is selected, \<open>handleStartBot\<close> and
  \<open>handleChargingMode\<close> only set the error message of the dashboard: \<open>botRunning\<close> keeps
  its value (an idle dashboard stays idle), no request is issued and no function is
  left suspended.
\<close>

theorem start_without_selection_rejected:
  "selectedAccount d = None \<or> selectedStrategy d = None \<Longrightarrow>
     handleStartBot d = d\<lparr>error := ''Please select an account and strategy first.''\<rparr>
     \<and> handleChargingMode d = d\<lparr>error := ''Please select an account and strategy first.''\<rparr>
     \<and> botRunning (handleStartBot d) = botRunning d
     \<and> calls (handleStartBot d) = calls d \<and> inflight (handleStartBot d) = inflight d
     \<and> botRunning (handleChargingMode d) = botRunning d
     \<and> calls (handleChargingMode d) = calls d \<and> inflight (handleChargingMode d) = inflight d"
  by (auto simp: handleStartBot_def handleChargingMode_def select_first_def split: option.splits)

text \<open>C5 at the loaded dashboard with the strategy deselected: it stays idle, with
  the three requests of its load as the only ones issued.\<close>

theorem start_without_selection_rejected_witness:
  "selectedStrategy (dash_ready\<lparr>selectedStrategy := None\<rparr>) = None
   \<and> error (handleStartBot (dash_ready\<lparr>selectedStrategy := None\<rparr>))
       = ''Please select an account and strategy first.''
   \<and> \<not> botRunning (handleStartBot (dash_ready\<lparr>selectedStrategy := None\<rparr>))
   \<and> calls (handleStartBot (dash_ready\<lparr>selectedStrategy := None\<rparr>)) = calls dash_ready
   \<and> inflight (handleChargingMode (dash_ready\<lparr>selectedStrategy := None\<rparr>)) = []"
proof -
  have h: "selectedAccount (dash_ready\<lparr>selectedStrategy := None\<rparr>) = None
           \<or> selectedStrategy (dash_ready\<lparr>selectedStrategy := None\<rparr>) = None"
    by simp
  have c: "\<not> botRunning dash_ready \<and> inflight dash_ready = []"
    by (simp add: dash_ready_def)
  from c start_without_selection_rejected [OF h] show ?thesis by simp
qed

subsection \<open>What the resolution of a trigger does\<close>




subsection \<open>Loading the three collections\<close>

text \<open>
  C6, as stated, fails. The dashboard mounts and its accounts request is rejected:
  \<open>fetchData\<close> leaves its \<open>try\<close> block, so the accounts request is the only request ever
  issued, nothing is in flight, and the strategies and the history are not asked for.
\<close>

theorem failed_accounts_load_blocks_the_rest:
  "map_option calls (run [Settled 0 Failed] (Dashboard_mount (Some ''tok1'')))
     = Some [GetAccounts (Some ''tok1'')]
   \<and> map_option inflight (run [Settled 0 Failed] (Dashboard_mount (Some ''tok1''))) = Some []
   \<and> map_option isLoading (run [Settled 0 Failed] (Dashboard_mount (Some ''tok1'')))
     = Some False"
  by (simp add: Dashboard_mount_def Dashboard_init_def fetchData_def issue_def remove_nth_def
      fetchData_catch_def)

text \<open>
  C6, amended: the three loads are chained in the order accounts, strategies,
  history, and each is issued only when the one before it has succeeded. A load that
  succeeds replaces its collection. A load that fails leaves its own collection and
  those of the later loads untouched, issues nothing more and sets the error message;
  the collections of the loads before it stay as those loads replaced them.
\<close>

theorem fetchData_loads_chained:
  "calls (fetchData d) = calls d @ [GetAccounts (auth_token d)]
   \<and> (let d' = fetchData_accounts t (Resolved a) d
      in accounts d' = a \<and> calls d' = calls d @ [GetStrategies t])
   \<and> (let d' = fetchData_accounts t Rejected d
      in accounts d' = accounts d \<and> strategies d' = strategies d
         \<and> tradingHistory d' = tradingHistory d \<and> calls d' = calls d
         \<and> inflight d' = inflight d
         \<and> error d' = ''Failed to load data. Please try again later.'')
   \<and> (let d' = fetchData_strategies t a (Resolved s) d
      in strategies d' = s \<and> accounts d' = accounts d \<and> calls d' = calls d @ [GetHistory t])
   \<and> (let d' = fetchData_strategies t a Rejected d
      in accounts d' = accounts d \<and> strategies d' = strategies d
         \<and> tradingHistory d' = tradingHistory d \<and> calls d' = calls d
         \<and> inflight d' = inflight d
         \<and> error d' = ''Failed to load data. Please try again later.'')
   \<and> (let d' = fetchData_history a s (Resolved h) d
      in tradingHistory d' = h \<and> accounts d' = accounts d \<and> strategies d' = strategies d
         \<and> calls d' = calls d)
   \<and> (let d' = fetchData_history a s Rejected d
      in accounts d' = accounts d \<and> strategies d' = strategies d
         \<and> tradingHistory d' = tradingHistory d \<and> calls d' = calls d
         \<and> inflight d' = inflight d
         \<and> error d' = ''Failed to load data. Please try again later.'')"
  by (simp add: Let_def fetchData_def fetchData_catch_def issue_def setDefaultSelections_def
      split: list.splits)

text \<open>C6, the amended statement on the loaded dashboard: a reload whose strategies
  request fails keeps the strategies and the history and issues nothing.\<close>

theorem fetchData_loads_chained_witness:
  "strategies (fetchData_strategies (Some ''tok1'') [acc1] Rejected dash_ready) = [strat1]
   \<and> tradingHistory (fetchData_strategies (Some ''tok1'') [acc1] Rejected dash_ready) = []
   \<and> calls (fetchData_strategies (Some ''tok1'') [acc1] Rejected dash_ready) = calls dash_ready
   \<and> accounts (fetchData_accounts (Some ''tok1'') (Resolved [acc1]) dash_ready) = [acc1]"
proof -
  have c: "strategies dash_ready = [strat1] \<and> tradingHistory dash_ready = []"
    by (simp add: dash_ready_def)
  from c
    fetchData_loads_chained [of dash_ready "Some ''tok1''" "[acc1]" "[]" "[]"]
  show ?thesis by (simp add: Let_def)
qed

subsection \<open>Default selections\<close>

text \<open>
  C7, as stated, fails. On the loaded dashboard the user picks the account \<open>A2\<close>;
  the token changes, \<open>fetchData\<close> runs again and its three requests succeed; the default
  step then selects the first account of the response, \<open>A1\<close>, over the user's choice.
\<close>

theorem defaults_overwrite_manual_selection:
  "map_option selectedAccount (run [SelectAccount ''A2''] dash_ready) = Some (Some acc2)
   \<and> map_option selectedAccount
       (run [SelectAccount ''A2'', TokenChanged (Some ''tok2''),
             Settled 0 (GotAccounts [acc1, acc2]), Settled 0 (GotStrategies [strat1]),
             Settled 0 (GotHistory [])] dash_ready) = Some (Some acc1)"
  by (simp add: dash_ready_def fetchData_def issue_def remove_nth_def setDefaultSelections_def
      acc1_def acc2_def)

text \<open>
  C7, amended: after a load in which all three requests succeeded, the selected
  account is the first account of the response whenever the response is not empty,
  whatever was selected before, and is unchanged when the response is empty; likewise
  for the strategy. Nothing else in a load touches the selection: starting the load, the
  accounts and the strategies arriving, and a failure of any of the three requests leave
  both fields unchanged.
\<close>

theorem setDefaultSelections_effect:
  "selectedAccount (fetchData_history a s (Resolved h) d)
     = (case a of [] \<Rightarrow> selectedAccount d | x # xs \<Rightarrow> Some x)
   \<and> selectedStrategy (fetchData_history a s (Resolved h) d)
     = (case s of [] \<Rightarrow> selectedStrategy d | y # ys \<Rightarrow> Some y)
   \<and> selectedAccount (fetchData_history a s Rejected d) = selectedAccount d
   \<and> selectedStrategy (fetchData_history a s Rejected d) = selectedStrategy d
   \<and> selectedAccount (fetchData_strategies t a q d) = selectedAccount d
   \<and> selectedStrategy (fetchData_strategies t a q d) = selectedStrategy d
   \<and> selectedAccount (fetchData_accounts t r d) = selectedAccount d
   \<and> selectedStrategy (fetchData_accounts t r d) = selectedStrategy d
   \<and> selectedAccount (fetchData d) = selectedAccount d
   \<and> selectedStrategy (fetchData d) = selectedStrategy d"
  by (cases q; cases r)
     (simp_all add: setDefaultSelections_def Let_def fetchData_catch_def fetchData_def issue_def
       split: list.splits)

text \<open>C7, the amended statement on a dashboard where \<open>A2\<close> is selected: a response
  starting with \<open>A1\<close> selects \<open>A1\<close>, an empty response keeps the selected strategy, and a
  failed accounts request keeps \<open>A2\<close>.\<close>

theorem setDefaultSelections_effect_witness:
  "selectedAccount
     (fetchData_history [acc1, acc2] [] (Resolved []) (dash_ready\<lparr>selectedAccount := Some acc2\<rparr>))
     = Some acc1
   \<and> selectedStrategy
       (fetchData_history [acc1, acc2] [] (Resolved []) (dash_ready\<lparr>selectedAccount := Some acc2\<rparr>))
     = Some strat1
   \<and> selectedAccount
       (fetchData_accounts (Some ''tok1'') Rejected (dash_ready\<lparr>selectedAccount := Some acc2\<rparr>))
     = Some acc2
   \<and> selectedAccount
       (fetchData_strategies (Some ''tok1'') [acc1, acc2] Rejected
          (dash_ready\<lparr>selectedAccount := Some acc2\<rparr>))
     = Some acc2"
proof -
  have c: "selectedStrategy (dash_ready\<lparr>selectedAccount := Some acc2\<rparr>) = Some strat1"
    by (simp add: dash_ready_def)
  from c
    setDefaultSelections_effect
      [of "[acc1, acc2]" "[]" "[]" "dash_ready\<lparr>selectedAccount := Some acc2\<rparr>"
          "Some ''tok1''" Rejected Rejected]
  show ?thesis by simp
qed

subsection \<open>Resetting the running indication\<close>

text \<open>A continuation of \<open>fetchData\<close> or of \<open>handleChargingMode\<close> leaves \<open>botRunning\<close>
  and the armed timeouts alone and suspends no \<open>handleStartBot\<close>.\<close>

lemma settle_keeps:
  assumes "settle k r d = Some d'" and "\<not> of_start k"
  shows "botRunning d' = botRunning d \<and> timers d' = timers d \<and> mounted d' = mounted d
         \<and> (list_all (\<lambda>k. \<not> of_start k) (inflight d)
              \<longrightarrow> list_all (\<lambda>k. \<not> of_start k) (inflight d'))"
  using assms
  by (cases "(k, r, d)" rule: settle.cases)
     (auto simp: issue_def fetchData_catch_def setDefaultSelections_def Let_def
       split: list.splits)

text \<open>While the dashboard is on screen, the bot is running and no reset is due, every
  event keeps it that way, except Power OFF and the events that take the dashboard down:
  Power ON and Charging UP are not rendered, no timeout can fire, the dashboard cannot be
  mounted a second time, and orphans reach no cell.\<close>

lemma step_keeps_running:
  assumes "step d e = Some d'" and "e \<noteq> ClickStop" and "\<not> takes_down e"
    and "mounted d" and "botRunning d" and "no_reset_due d"
  shows "mounted d' \<and> botRunning d' \<and> no_reset_due d'"
proof (cases e)
  case (Settled i r)
  with assms have i: "i < length (inflight d)"
    and s: "settle (inflight d ! i) r (d\<lparr>inflight := remove_nth i (inflight d)\<rparr>) = Some d'"
    by (auto split: if_splits)
  from assms(6) i have "\<not> of_start (inflight d ! i)"
    using list_all_nth [of "\<lambda>k. \<not> of_start k" "inflight d" i]
    by (simp add: no_reset_due_def)
  from settle_keeps [OF s this] assms(4,5,6) show ?thesis
    by (simp add: no_reset_due_def list_all_remove_nth)
next
  case (OrphanSettled i r)
  with assms show ?thesis
    by (auto simp: settle_orphan_def no_reset_due_def split: if_splits option.splits)
qed (use assms in \<open>auto simp: no_reset_due_def fetchData_def issue_def split: if_splits\<close>)

lemma run_keeps_running:
  "run es d = Some d' \<Longrightarrow> ClickStop \<notin> set es \<Longrightarrow> list_all (\<lambda>e. \<not> takes_down e) es
     \<Longrightarrow> mounted d \<Longrightarrow> botRunning d \<Longrightarrow> no_reset_due d
     \<Longrightarrow> mounted d' \<and> botRunning d' \<and> no_reset_due d'"
proof (induction es arbitrary: d)
  case Nil
  then show ?case by simp
next
  case (Cons e es)
  then obtain d1 where d1: "step d e = Some d1" and r: "run es d1 = Some d'"
    by (auto split: option.splits)
  from Cons.prems have e: "e \<noteq> ClickStop" "\<not> takes_down e" by auto
  from step_keeps_running [OF d1 e Cons.prems(4,5,6)] Cons.IH [OF r] Cons.prems(2,3)
  show ?case by simp
qed

text \<open>
  C8, as stated, fails, in two ways. On the loaded dashboard the user clicks Power ON
  and the trigger is rejected, which arms the timeout of \<open>handleStartBot\<close>; the user
  clicks Power OFF, which does not cancel it, and then Charging UP, whose trigger is
  rejected too. The bot is running in charging mode; when the timeout of the earlier run
  fires, \<open>botRunning\<close> becomes false without a stop. Second, \<open>botRunning\<close> is a cell of the
  dashboard: after Charging UP and a rejected trigger the user goes to another page with
  the sidebar and comes back, and the dashboard that mounts starts with \<open>botRunning\<close>
  false, again without a stop.
\<close>

theorem earlier_timer_ends_charging:
  "map_option botRunning
     (run [ClickStart, Settled 0 Failed, ClickStop, ClickCharging, Settled 0 Failed] dash_ready)
     = Some True
   \<and> map_option timers
       (run [ClickStart, Settled 0 Failed, ClickStop, ClickCharging, Settled 0 Failed] dash_ready)
     = Some [5000]
   \<and> map_option botRunning
       (run [ClickStart, Settled 0 Failed, ClickStop, ClickCharging, Settled 0 Failed, Timeout 0]
          dash_ready)
     = Some False
   \<and> map_option botRunning (run [ClickCharging, Settled 0 Failed] dash_ready) = Some True
   \<and> map_option botRunning
       (run [ClickCharging, Settled 0 Failed, Unmount, Mount (Some ''tok1'')] dash_ready)
     = Some False"
  by (simp add: dash_ready_def handleStartBot_def handleChargingMode_def handleStopBot_def
      timeout_callback_def issue_def remove_nth_def handleStartBot_finally_def unmount_def
      remount_def Dashboard_init_def fetchData_def)

text \<open>
  C8, amended: when Charging UP is clicked while no reset is due from an earlier
  \<open>handleStartBot\<close> (no timeout of it is armed and none of its runs is suspended), then
  whatever happens afterwards, the rejection of the trigger included, the dashboard
  stays on screen with \<open>botRunning\<close> true and no timeout armed, until Power OFF is
  clicked or the dashboard is taken down (navigation to another page, logout, or a
  token cleared by a failed verification).
\<close>

theorem charging_stays_until_stop:
  assumes "no_reset_due d" and "step d ClickCharging = Some d1"
    and "run es d1 = Some d'" and "ClickStop \<notin> set es"
    and "list_all (\<lambda>e. \<not> takes_down e) es"
  shows "mounted d' \<and> botRunning d' \<and> timers d' = []"
proof -
  from assms(1,2) have "mounted d1 \<and> botRunning d1 \<and> no_reset_due d1"
    by (auto simp: handleChargingMode_def issue_def no_reset_due_def
        split: if_splits option.splits)
  with run_keeps_running [OF assms(3,4,5)] show ?thesis
    by (simp add: no_reset_due_def)
qed

text \<open>C8, the amended statement on the loaded dashboard: Charging UP, the trigger is
  rejected, the user picks another account, and the token is replaced by another one.\<close>

theorem charging_stays_until_stop_witness:
  "no_reset_due dash_ready
   \<and> step dash_ready ClickCharging = Some (handleChargingMode dash_ready)
   \<and> ClickStop \<notin> set [Settled 0 Failed, SelectAccount ''A2'', TokenChanged (Some ''tok2'')]
   \<and> list_all (\<lambda>e. \<not> takes_down e)
       [Settled 0 Failed, SelectAccount ''A2'', TokenChanged (Some ''tok2'')]
   \<and> map_option botRunning
       (run [Settled 0 Failed, SelectAccount ''A2'', TokenChanged (Some ''tok2'')]
          (handleChargingMode dash_ready)) = Some True
   \<and> map_option error
       (run [Settled 0 Failed, SelectAccount ''A2'', TokenChanged (Some ''tok2'')]
          (handleChargingMode dash_ready))
     = Some ''Failed to activate charging mode. Please try again.''"
proof -
  have a: "no_reset_due dash_ready"
    by (simp add: no_reset_due_def dash_ready_def)
  have b: "step dash_ready ClickCharging = Some (handleChargingMode dash_ready)"
    by (simp add: dash_ready_def)
  have c: "ClickStop \<notin> set [Settled 0 Failed, SelectAccount ''A2'', TokenChanged (Some ''tok2'')]"
    by simp
  have t: "list_all (\<lambda>e. \<not> takes_down e)
             [Settled 0 Failed, SelectAccount ''A2'', TokenChanged (Some ''tok2'')]"
    by simp
  obtain d' where d: "run [Settled 0 Failed, SelectAccount ''A2'', TokenChanged (Some ''tok2'')]
                        (handleChargingMode dash_ready) = Some d'"
    and e: "error d' = ''Failed to activate charging mode. Please try again.''"
    by (simp add: dash_ready_def handleChargingMode_def issue_def remove_nth_def fetchData_def)
  from charging_stays_until_stop [OF a b d c t] have "botRunning d'" by simp
  with a b c t d e show ?thesis by simp
qed

text \<open>
  C10, as stated, fails. On the loaded dashboard the user clicks Power ON and the
  trigger succeeds: the trigger request has resolved, \<open>botRunning\<close> is true, and no
  timeout is armed, so none can fire; \<open>handleStartBot\<close> is suspended at its history
  request and arms the timeout only when that request has settled.
\<close>

theorem no_timer_after_trigger_success:
  "map_option timers (run [ClickStart, Settled 0 GotAck] dash_ready) = Some []
   \<and> map_option botRunning (run [ClickStart, Settled 0 GotAck] dash_ready) = Some True
   \<and> map_option inflight (run [ClickStart, Settled 0 GotAck] dash_ready)
     = Some [AwaitTradingHistory (Some ''tok1'')]
   \<and> run [ClickStart, Settled 0 GotAck, Timeout 0] dash_ready = None"
  by (simp add: dash_ready_def handleStartBot_def issue_def remove_nth_def)

text \<open>
  C10, amended: a \<open>handleStartBot\<close> that passes its guard sets \<open>botRunning\<close> at once,
  issues the trigger \<open>POST /simulate/trading\<close> and suspends on it, and arms nothing
  yet. Exactly one timeout of 5000 ms is armed when its \<open>try\<close> block is left: at the
  rejection of the trigger, or, after a trigger that succeeded (which arms nothing and
  suspends the function at the history request), when the history request has settled
  either way; after that nothing of the run is left suspended. An armed timeout that
  fires on the dashboard sets \<open>botRunning\<close> to false. No part of \<open>handleChargingMode\<close>
  arms a timeout.
\<close>

theorem start_run_reset_timer:
  "(selectedAccount d = Some a \<and> selectedStrategy d = Some st \<longrightarrow>
      botRunning (handleStartBot d) \<and> timers (handleStartBot d) = timers d
      \<and> calls (handleStartBot d)
        = calls d @ [PostSimulate (auth_token d) (acc_id a) (strat_id st) (chartSymbol d) False]
      \<and> inflight (handleStartBot d) = inflight d @ [AwaitTrading (auth_token d)]
      \<and> timers (handleChargingMode d) = timers d
      \<and> inflight (handleChargingMode d) = inflight d @ [AwaitCharging (auth_token d)])
   \<and> (\<exists>d'. settle (AwaitTrading t) Failed d = Some d' \<and> timers d' = timers d @ [5000]
          \<and> inflight d' = inflight d)
   \<and> (\<exists>d'. settle (AwaitTrading t) GotAck d = Some d' \<and> timers d' = timers d
          \<and> inflight d' = inflight d @ [AwaitTradingHistory t])
   \<and> (\<exists>d'. settle (AwaitTradingHistory t) (GotHistory h) d = Some d'
          \<and> timers d' = timers d @ [5000] \<and> inflight d' = inflight d)
   \<and> (\<exists>d'. settle (AwaitTradingHistory t) Failed d = Some d'
          \<and> timers d' = timers d @ [5000] \<and> inflight d' = inflight d)
   \<and> (mounted d \<and> i < length (timers d) \<longrightarrow>
        (\<exists>d'. step d (Timeout i) = Some d' \<and> \<not> botRunning d'
              \<and> timers d' = remove_nth i (timers d)))
   \<and> (\<exists>d'. settle (AwaitCharging t) Failed d = Some d' \<and> timers d' = timers d)
   \<and> (\<exists>d'. settle (AwaitCharging t) GotAck d = Some d' \<and> timers d' = timers d
          \<and> inflight d' = inflight d @ [AwaitChargingHistory t])
   \<and> (\<exists>d'. settle (AwaitChargingHistory t) (GotHistory h) d = Some d' \<and> timers d' = timers d)
   \<and> (\<exists>d'. settle (AwaitChargingHistory t) Failed d = Some d' \<and> timers d' = timers d)"
  by (auto simp: handleStartBot_def handleChargingMode_def issue_def handleStartBot_finally_def
      timeout_callback_def)

text \<open>
  C10, the amended statement on the loaded dashboard: the click sets \<open>botRunning\<close>
  and suspends on the trigger; the trigger is rejected, which arms the timeout while
  \<open>botRunning\<close> is still true; the timeout fires and \<open>botRunning\<close> is false.
\<close>

theorem start_run_reset_timer_witness:
  "(selectedAccount dash_ready = Some acc1 \<and> selectedStrategy dash_ready = Some strat1)
   \<and> botRunning (handleStartBot dash_ready)
   \<and> inflight (handleStartBot dash_ready) = [AwaitTrading (Some ''tok1'')]
   \<and> (\<exists>d1. settle (AwaitTrading (Some ''tok1'')) Failed
             ((handleStartBot dash_ready)\<lparr>inflight := []\<rparr>) = Some d1
          \<and> timers d1 = [5000] \<and> botRunning d1 \<and> mounted d1
          \<and> 0 < length (timers d1)
          \<and> (\<exists>d2. step d1 (Timeout 0) = Some d2 \<and> \<not> botRunning d2 \<and> timers d2 = []))"
proof -
  have a: "selectedAccount dash_ready = Some acc1 \<and> selectedStrategy dash_ready = Some strat1"
    by (simp add: dash_ready_def)
  have b: "timers dash_ready = [] \<and> inflight dash_ready = [] \<and> auth_token dash_ready = Some ''tok1''"
    by (simp add: dash_ready_def)
  from a b start_run_reset_timer [of dash_ready acc1 strat1]
  have c: "botRunning (handleStartBot dash_ready)
           \<and> inflight (handleStartBot dash_ready) = [AwaitTrading (Some ''tok1'')]
           \<and> timers (handleStartBot dash_ready) = []"
    by simp
  from start_run_reset_timer
         [of "(handleStartBot dash_ready)\<lparr>inflight := []\<rparr>" acc1 strat1 "Some ''tok1''"]
  obtain d1 where d1: "settle (AwaitTrading (Some ''tok1'')) Failed
                         ((handleStartBot dash_ready)\<lparr>inflight := []\<rparr>) = Some d1"
    and t1: "timers d1 = timers ((handleStartBot dash_ready)\<lparr>inflight := []\<rparr>) @ [5000]"
    by blast
  from c t1 have t: "timers d1 = [5000]" by simp
  from d1 c have m: "botRunning d1 \<and> mounted d1"
    by (auto simp: handleStartBot_finally_def dash_ready_def handleStartBot_def issue_def)
  from m t start_run_reset_timer [of d1 acc1 strat1 "Some ''tok1''" "[]" 0]
  obtain d2 where "step d1 (Timeout 0) = Some d2 \<and> \<not> botRunning d2
                   \<and> timers d2 = remove_nth 0 (timers d1)"
    by auto
  with t have "\<exists>d2. step d1 (Timeout 0) = Some d2 \<and> \<not> botRunning d2 \<and> timers d2 = []"
    by (simp add: remove_nth_def)
  with a c d1 t m show ?thesis by simp
qed

end
